theory Spec2Isabelle
  imports Complex_Main "HOL-Library.Sublist" "HOL-Library.Word" "HOL-Library.Code_Target_Nat"
begin

unbundle bit_operations_syntax

section \<open>JavaScript values\<close>

text \<open>
  A JavaScript number is NaN, an infinity or a finite value; every finite double is a
  rational, and the comparisons of the source are exact on them.
\<close>

datatype jsnum = NaN | PosInfinity | NegInfinity | Fin rat

text \<open>
  The values a JSON body, a parsed location and the metadata object are made of. An
  object is its list of own properties in insertion order.
\<close>

datatype jsval =
    Undefined
  | Null
  | Bool bool
  | Num jsnum
  | Str string
  | Arr "jsval list"
  | Obj "(string \<times> jsval) list"

text \<open>
  What a \<open>throw\<close> carries: an \<open>Error\<close> instance with its name and message, or any
  other value (rendered as text).
\<close>

datatype thrown = Exception string string | NonError string

text \<open>ToBoolean.\<close>

fun truthy :: "jsval \<Rightarrow> bool" where
  "truthy Undefined = False"
| "truthy Null = False"
| "truthy (Bool b) = b"
| "truthy (Num NaN) = False"
| "truthy (Num (Fin r)) = (r \<noteq> 0)"
| "truthy (Num _) = True"
| "truthy (Str s) = (s \<noteq> [])"
| "truthy (Arr _) = True"
| "truthy (Obj _) = True"

text \<open>The \<open>typeof\<close> operator.\<close>

fun typeof :: "jsval \<Rightarrow> string" where
  "typeof Undefined = ''undefined''"
| "typeof Null = ''object''"
| "typeof (Bool _) = ''boolean''"
| "typeof (Num _) = ''number''"
| "typeof (Str _) = ''string''"
| "typeof (Arr _) = ''object''"
| "typeof (Obj _) = ''object''"

text \<open>
  Reading a named property \<open>o.k\<close> of an object: the last definition of the key in the
  literal wins, a missing key reads as \<open>undefined\<close>. The source reads properties of
  objects only (a body is checked to be one before it is parsed); on an array none of the
  names read here exists.
\<close>

fun getProp :: "jsval \<Rightarrow> string \<Rightarrow> jsval" where
  "getProp (Obj ps) k = (case map_of (rev ps) k of Some v \<Rightarrow> v | None \<Rightarrow> Undefined)"
| "getProp _ k = Undefined"

text \<open>Whether an object has the key (\<open>toHaveProperty\<close>, \<open>Object.keys\<close>).\<close>

fun hasKey :: "jsval \<Rightarrow> string \<Rightarrow> bool" where
  "hasKey (Obj ps) k = (k \<in> fst ` set ps)"
| "hasKey _ k = False"

text \<open>The operator \<open>a || b\<close>.\<close>

definition js_or :: "jsval \<Rightarrow> jsval \<Rightarrow> jsval" where
  "js_or a b = (if truthy a then a else b)"

text \<open>
  Spreading a value into an object literal, \<open>{...v}\<close>: the own properties of an
  object; nothing for \<open>undefined\<close>, \<open>null\<close>, \<open>false\<close>, a number or the empty string.
\<close>

fun spread :: "jsval \<Rightarrow> (string \<times> jsval) list" where
  "spread (Obj ps) = ps"
| "spread _ = []"

text \<open>The operator \<open>a && b\<close>.\<close>

definition js_and :: "jsval \<Rightarrow> jsval \<Rightarrow> jsval" where
  "js_and a b = (if truthy a then b else a)"

section \<open>Strings and the regular expressions of the source\<close>

text \<open>
  A user-agent string is a list of code units below 256 (what a header value holds).
  \<open>toLowerCase\<close> maps A-Z and the Latin-1 capitals to their small letters.
\<close>

definition toLowerCase_unit :: "char \<Rightarrow> char" where
  "toLowerCase_unit c =
     (let n = (of_char c :: nat)
      in if (65 \<le> n \<and> n \<le> 90) \<or> (192 \<le> n \<and> n \<le> 222 \<and> n \<noteq> 215)
         then char_of (n + 32) else c)"

definition toLowerCase :: "string \<Rightarrow> string" where
  "toLowerCase s = map toLowerCase_unit s"

text \<open>
  Every regular expression of the source is an alternation of literal strings
  (\<open>/iphone|ipod/\<close>, \<open>/windows nt 6\.3/\<close>), so a pattern is the list of its
  alternatives and \<open>test\<close> asks whether one of them occurs in the subject.

  With the flag \<open>i\<close> both sides are compared after Canonicalize, which takes the
  upper-case code unit of a character (for y-diaeresis and the micro sign a code unit
  above 255) unless that would turn a non-ASCII character into an ASCII one.
\<close>

type_synonym regex = "string list"

definition canonicalize :: "char \<Rightarrow> nat" where
  "canonicalize c =
     (let n = (of_char c :: nat)
      in if (97 \<le> n \<and> n \<le> 122) \<or> (224 \<le> n \<and> n \<le> 254 \<and> n \<noteq> 247) then n - 32
         else if n = 255 then 376
         else if n = 181 then 924
         else n)"

definition regex_test :: "regex \<Rightarrow> string \<Rightarrow> bool" where
  "regex_test re s = (\<exists>p \<in> set re. sublist p s)"

definition regex_test_i :: "regex \<Rightarrow> string \<Rightarrow> bool" where
  "regex_test_i re s = (\<exists>p \<in> set re. sublist (map canonicalize p) (map canonicalize s))"

section \<open>User-agent parser (uaParser.ts)\<close>

definition platforms :: "(regex \<times> string) list" where
  "platforms =
    [([''windows nt 10''], ''Windows 10/11''),
     ([''windows nt 6.3''], ''Windows 8.1''),
     ([''windows nt 6.2''], ''Windows 8''),
     ([''windows nt 6.1''], ''Windows 7''),
     ([''windows''], ''Windows''),
     ([''iphone'', ''ipod''], ''iOS''),
     ([''ipad''], ''iPadOS''),
     ([''macintosh'', ''mac os x''], ''macOS''),
     ([''android''], ''Android''),
     ([''ubuntu''], ''Ubuntu''),
     ([''debian''], ''Debian''),
     ([''fedora''], ''Fedora''),
     ([''centos''], ''CentOS''),
     ([''linux''], ''Linux''),
     ([''chromeos''], ''Chrome OS''),
     ([''freebsd''], ''FreeBSD''),
     ([''openbsd''], ''OpenBSD''),
     ([''netbsd''], ''NetBSD''),
     ([''sunos''], ''Solaris'')]"

text \<open>The loop returns the name of the first entry whose pattern matches.\<close>

definition detectPlatform :: "string \<Rightarrow> string" where
  "detectPlatform userAgent =
     (let ua = toLowerCase userAgent
      in case find (\<lambda>platform. regex_test (fst platform) ua) platforms of
           Some platform \<Rightarrow> snd platform
         | None \<Rightarrow> ''Unknown'')"

definition browsers :: "(regex \<times> string) list" where
  "browsers =
    [([''edg/''], ''Edge''),
     ([''edge/''], ''Edge Legacy''),
     ([''opr/''], ''Opera''),
     ([''brave/''], ''Brave''),
     ([''vivaldi/''], ''Vivaldi''),
     ([''chrome/''], ''Chrome''),
     ([''firefox/''], ''Firefox''),
     ([''safari/''], ''Safari''),
     ([''msie'', ''trident''], ''Internet Explorer''),
     ([''samsung''], ''Samsung Internet''),
     ([''ucbrowser''], ''UC Browser'')]"

text \<open>
  The Safari special case tests the string as given; the table is scanned on the
  lower-cased copy.
\<close>

definition detectBrowser :: "string \<Rightarrow> string" where
  "detectBrowser userAgent =
     (let ua = toLowerCase userAgent
      in if regex_test_i [''safari''] userAgent \<and> \<not> regex_test_i [''chrome''] userAgent
         then ''Safari''
         else case find (\<lambda>browser. regex_test_i (fst browser) ua) browsers of
                Some browser \<Rightarrow> snd browser
              | None \<Rightarrow> ''Unknown'')"

definition detectDeviceType :: "string \<Rightarrow> string" where
  "detectDeviceType userAgent =
     (let ua = toLowerCase userAgent
      in if regex_test_i [''ipad'', ''tablet'', ''kindle'', ''playbook'', ''silk''] ua
         then ''tablet''
         else if regex_test_i [''mobile'', ''android'', ''iphone'', ''ipod'', ''blackberry'',
                               ''opera mini'', ''iemobile'', ''wpdesktop''] ua
         then ''mobile''
         else ''desktop'')"

text \<open>
  The ambient \<open>navigator\<close>. Reading a property runs its getter, which throws (\<open>Inl\<close>)
  or returns (\<open>Inr\<close>); a property that returns \<open>None\<close> reads as \<open>undefined\<close>. The
  numeric attributes are integers (Web IDL \<open>long\<close>).
\<close>

record navigator =
  userAgent :: "thrown + string option"
  language :: "thrown + string option"
  languages :: "thrown + string list option"
  platform :: "thrown + string option"
  cookieEnabled :: "thrown + bool"
  doNotTrack :: "thrown + string option"
  hardwareConcurrency :: "thrown + int option"
  maxTouchPoints :: "thrown + int option"
  vendorSub :: "thrown + string option"
  productSub :: "thrown + string option"
  userAgentData_platform :: "thrown + string option"

text \<open>
  \<open>parseUserAgent\<close> reads \<open>navigator.userAgent\<close>: a ReferenceError where no global
  \<open>navigator\<close> exists, what the getter throws where it throws, a TypeError from
  \<open>toLowerCase\<close> where the property is undefined (the message texts are the engine's).
\<close>

definition parseUserAgent :: "navigator option \<Rightarrow> thrown + jsval" where
  "parseUserAgent nav =
     (case nav of
        None \<Rightarrow> Inl (Exception ''ReferenceError'' ''navigator is not defined'')
      | Some n \<Rightarrow>
          (case userAgent n of
             Inl err \<Rightarrow> Inl err
           | Inr None \<Rightarrow> Inl (Exception ''TypeError''
                        ''Cannot read properties of undefined (reading toLowerCase)'')
           | Inr (Some ua) \<Rightarrow>
               Inr (Obj [(''userAgent'', Str ua),
                         (''platform'', Str (detectPlatform ua)),
                         (''browser'', Str (detectBrowser ua)),
                         (''deviceType'', Str (detectDeviceType ua))])))"

section \<open>Fingerprint generator (fingerprint.ts)\<close>

text \<open>
  The elements of a characteristics array: a string, a number (the attributes read here
  are integers, of magnitude below \<open>10 ^ 21\<close>, which \<open>toString\<close> prints in full),
  \<open>undefined\<close> or \<open>null\<close>.
\<close>

datatype jsprim = PStr string | PNum int | PUndefined | PNull

definition digitChar :: "nat \<Rightarrow> char" where
  "digitChar d = (if d < 36 then ''0123456789abcdefghijklmnopqrstuvwxyz'' ! d else CHR ''?'')"

text \<open>\<open>Number.prototype.toString(radix)\<close> on a non-negative integer.\<close>

function numberToString :: "nat \<Rightarrow> nat \<Rightarrow> string" where
  "numberToString b n =
     (if 2 \<le> b \<and> b \<le> n then numberToString b (n div b) @ [digitChar (n mod b)]
      else [digitChar n])"
  by pat_completeness auto
termination
  by (relation "measure (\<lambda>(b, n). n)") auto

declare numberToString.simps [simp del]

definition intToString :: "int \<Rightarrow> string" where
  "intToString i = (if i < 0 then ''-'' @ numberToString 10 (nat (- i)) else numberToString 10 (nat i))"

text \<open>What \<open>Array.prototype.join\<close> makes of an element.\<close>

fun primToString :: "jsprim \<Rightarrow> string" where
  "primToString (PStr s) = s"
| "primToString (PNum i) = intToString i"
| "primToString PUndefined = []"
| "primToString PNull = []"

fun join :: "string \<Rightarrow> string list \<Rightarrow> string" where
  "join sep [] = []"
| "join sep [x] = x"
| "join sep (x # y # ys) = x @ sep @ join sep (y # ys)"

text \<open>
  The ambient \<open>screen\<close>, its properties read as those of \<open>navigator\<close> are, and what
  the canvas probes meet: obtaining a context throws
  (no \<open>document\<close>, or \<open>createElement\<close> or \<open>getContext\<close> fails), yields \<open>null\<close>, or
  yields a context.
\<close>

record Screen =
  width :: "thrown + int option"
  height :: "thrown + int option"
  colorDepth :: "thrown + int option"
  pixelDepth :: "thrown + int option"

datatype 'a probe = Throws | Missing | Present 'a

text \<open>
  A 2d context: the data URL after the drawing calls (\<open>None\<close> where one of them
  throws), and the width \<open>measureText\<close> gives the test string under a font (\<open>None\<close>
  where it throws).
\<close>

record Context2D =
  toDataURL :: "string option"
  measureText :: "string \<Rightarrow> rat option"

text \<open>
  The environment of a call: the globals, the clock, the fingerprinting library of the
  earlier revision (what \<open>new ClientJS().getFingerprint()\<close> returns or throws), and the
  network: for a URL, after how many milliseconds the request settles and how.
\<close>

datatype fetch_outcome =
    FetchRejects thrown
  | Response bool nat string "thrown + jsval"

record env =
  navigator :: "navigator option"
  screen :: "Screen option"
  timezoneOffset :: int
  now :: nat
  context2d :: "Context2D probe"
  webgl :: "(string \<times> string) probe probe"
  clientjs :: "thrown + jsprim"
  fetch :: "string \<Rightarrow> nat \<times> fetch_outcome"

text \<open>\<open>try { body } catch (error) { handler }\<close>.\<close>

definition try_catch :: "thrown + 'a \<Rightarrow> (thrown \<Rightarrow> thrown + 'a) \<Rightarrow> thrown + 'a" where
  "try_catch body handler = (case body of Inl error \<Rightarrow> handler error | Inr v \<Rightarrow> Inr v)"

text \<open>Reading a global: a ReferenceError where it is not defined.\<close>

definition global :: "string \<Rightarrow> 'a option \<Rightarrow> thrown + 'a" where
  "global ident g =
     (case g of None \<Rightarrow> Inl (Exception ''ReferenceError'' (ident @ '' is not defined''))
      | Some v \<Rightarrow> Inr v)"

text \<open>
  The expressions \<open>navigator.p\<close> and \<open>screen.p\<close>: the global is looked up, then the
  property's getter runs.
\<close>

definition navigatorProp :: "env \<Rightarrow> (navigator \<Rightarrow> thrown + 'a) \<Rightarrow> thrown + 'a" where
  "navigatorProp e getter =
     (case global ''navigator'' (navigator e) of Inl err \<Rightarrow> Inl err | Inr nav \<Rightarrow> getter nav)"

definition screenProp :: "env \<Rightarrow> (Screen \<Rightarrow> thrown + 'a) \<Rightarrow> thrown + 'a" where
  "screenProp e getter =
     (case global ''screen'' (screen e) of Inl err \<Rightarrow> Inl err | Inr scr \<Rightarrow> getter scr)"

text \<open>
  An array literal evaluates its elements from left to right; the first one that throws
  ends the evaluation.
\<close>

fun arrayLiteral :: "(thrown + 'a) list \<Rightarrow> thrown + 'a list" where
  "arrayLiteral [] = Inr []"
| "arrayLiteral (x # xs) =
     (case x of
        Inl err \<Rightarrow> Inl err
      | Inr v \<Rightarrow> (case arrayLiteral xs of Inl err \<Rightarrow> Inl err | Inr vs \<Rightarrow> Inr (v # vs)))"

fun optStr :: "string option \<Rightarrow> jsprim" where
  "optStr None = PUndefined"
| "optStr (Some s) = PStr s"

fun optNum :: "int option \<Rightarrow> jsprim" where
  "optNum None = PUndefined"
| "optNum (Some i) = PNum i"

text \<open>\<open>s || d\<close> on an optional string, \<open>n || d\<close> on an optional number.\<close>

fun strOr :: "string option \<Rightarrow> jsprim \<Rightarrow> jsprim" where
  "strOr (Some s) d = (if s \<noteq> [] then PStr s else d)"
| "strOr None d = d"

fun numOr :: "int option \<Rightarrow> jsprim \<Rightarrow> jsprim" where
  "numOr (Some i) d = (if i \<noteq> 0 then PNum i else d)"
| "numOr None d = d"

text \<open>
  The rolling hash: \<open>((hash << 5) - hash) + char\<close> cut to 32 bits by \<open>hash & hash\<close>
  is arithmetic modulo \<open>2 ^ 32\<close>, read as a signed value.
\<close>

definition hashStep :: "32 word \<Rightarrow> char \<Rightarrow> 32 word" where
  "hashStep hash c = (push_bit 5 hash - hash) + of_nat (of_char c)"

definition hashString :: "string \<Rightarrow> string" where
  "hashString fingerprintData =
     (let hash = foldl hashStep 0 fingerprintData
      in numberToString 16 (nat \<bar>sint hash\<bar>))"


definition hashCharacteristics :: "jsprim list \<Rightarrow> string" where
  "hashCharacteristics characteristics = hashString (join ''|'' (map primToString characteristics))"

text \<open>The array literal of \<open>getFastFingerprint\<close>.\<close>

definition fastCharacteristics :: "env \<Rightarrow> thrown + jsprim list" where
  "fastCharacteristics e =
     arrayLiteral
       [map_sum id optStr (navigatorProp e userAgent),
        map_sum id optStr (navigatorProp e language),
        map_sum id optStr (navigatorProp e platform),
        map_sum id optNum (screenProp e width),
        map_sum id optNum (screenProp e height),
        map_sum id optNum (screenProp e colorDepth),
        Inr (PNum (timezoneOffset e)),
        map_sum id (\<lambda>v. numOr v (PStr ''unknown'')) (navigatorProp e hardwareConcurrency),
        map_sum id (\<lambda>v. numOr v (PNum 0)) (navigatorProp e maxTouchPoints)]"

definition getFastFingerprint :: "env \<Rightarrow> thrown + string" where
  "getFastFingerprint e =
     (case fastCharacteristics e of
        Inl err \<Rightarrow> Inl err
      | Inr characteristics \<Rightarrow> Inr (hashCharacteristics characteristics))"

definition getBasicCharacteristics :: "env \<Rightarrow> thrown + jsprim list" where
  "getBasicCharacteristics e =
     arrayLiteral
       [map_sum id optStr (navigatorProp e userAgent),
        map_sum id optStr (navigatorProp e language),
        map_sum id (\<lambda>v. strOr (map_option (join '','') v) (PStr [])) (navigatorProp e languages),
        map_sum id optStr (navigatorProp e platform),
        map_sum id (\<lambda>v. PStr (if v then ''true'' else ''false'')) (navigatorProp e cookieEnabled),
        map_sum id (\<lambda>v. strOr v (PStr [])) (navigatorProp e doNotTrack),
        map_sum id optNum (screenProp e width),
        map_sum id optNum (screenProp e height),
        map_sum id optNum (screenProp e colorDepth),
        map_sum id optNum (screenProp e pixelDepth),
        Inr (PNum (timezoneOffset e)),
        map_sum id (\<lambda>v. numOr v (PNum 0)) (navigatorProp e hardwareConcurrency),
        map_sum id (\<lambda>v. numOr v (PNum 0)) (navigatorProp e maxTouchPoints),
        map_sum id (\<lambda>v. strOr v (PStr [])) (navigatorProp e vendorSub),
        map_sum id (\<lambda>v. strOr v (PStr [])) (navigatorProp e productSub)]"

definition getCanvasFingerprint :: "env \<Rightarrow> string" where
  "getCanvasFingerprint e =
     (case context2d e of
        Throws \<Rightarrow> ''canvas-error''
      | Missing \<Rightarrow> ''no-canvas''
      | Present ctx \<Rightarrow> (case toDataURL ctx of None \<Rightarrow> ''canvas-error'' | Some u \<Rightarrow> u))"

definition getWebGLFingerprint :: "env \<Rightarrow> string" where
  "getWebGLFingerprint e =
     (case webgl e of
        Throws \<Rightarrow> ''webgl-error''
      | Missing \<Rightarrow> ''no-webgl''
      | Present gl \<Rightarrow>
          (case gl of
             Throws \<Rightarrow> ''webgl-error''
           | Missing \<Rightarrow> ''no-webgl-info''
           | Present (vendor, renderer) \<Rightarrow> vendor @ ''~'' @ renderer))"

definition fontList :: "string list" where
  "fontList =
     [''Arial'', ''Arial Black'', ''Arial Narrow'', ''Comic Sans MS'', ''Courier'',
      ''Courier New'', ''Georgia'', ''Helvetica'', ''Impact'', ''Lucida Console'',
      ''Times'', ''Times New Roman'', ''Trebuchet MS'', ''Verdana'']"

text \<open>The loop over the fonts: \<open>None\<close> where a measurement throws.\<close>

fun availableFonts :: "Context2D \<Rightarrow> rat \<Rightarrow> string list \<Rightarrow> string list option" where
  "availableFonts ctx baseWidth [] = Some []"
| "availableFonts ctx baseWidth (font # fonts) =
     (case measureText ctx (''72px '' @ font @ '', monospace'') of
        None \<Rightarrow> None
      | Some w \<Rightarrow>
          (case availableFonts ctx baseWidth fonts of
             None \<Rightarrow> None
           | Some found \<Rightarrow> Some (if w \<noteq> baseWidth then font # found else found)))"

definition getFontFingerprint :: "env \<Rightarrow> string" where
  "getFontFingerprint e =
     (case context2d e of
        Throws \<Rightarrow> ''font-error''
      | Missing \<Rightarrow> ''no-canvas''
      | Present ctx \<Rightarrow>
          (case measureText ctx ''72px monospace'' of
             None \<Rightarrow> ''font-error''
           | Some baseWidth \<Rightarrow>
               (case availableFonts ctx baseWidth fontList of
                  None \<Rightarrow> ''font-error''
                | Some found \<Rightarrow> join '','' found)))"

definition getComprehensiveFingerprint :: "env \<Rightarrow> thrown + string" where
  "getComprehensiveFingerprint e =
     (case getBasicCharacteristics e of
        Inl err \<Rightarrow> Inl err
      | Inr basic \<Rightarrow>
          Inr (hashCharacteristics
                 (basic @ [PStr (getCanvasFingerprint e),
                           PStr (getWebGLFingerprint e),
                           PStr (getFontFingerprint e)])))"

text \<open>The catch block of \<open>getFingerprint\<close> throws a new Error: nothing is returned.\<close>

definition getFingerprint :: "bool \<Rightarrow> env \<Rightarrow> thrown + string" where
  "getFingerprint comprehensive e =
     try_catch
       (if comprehensive then getComprehensiveFingerprint e else getFastFingerprint e)
       (\<lambda>error. case error of
            Exception nm message \<Rightarrow>
              Inl (Exception ''Error'' (''Fingerprint generation failed: '' @ message))
          | NonError v \<Rightarrow>
              Inl (Exception ''Error'' ''Fingerprint generation failed: Unknown error''))"

subsection \<open>The library-delegated revision of fingerprint.ts\<close>





section \<open>Geolocation (location.ts)\<close>

record LocationProvider =
  name :: string
  url :: string
  parser :: "jsval \<Rightarrow> jsval"

text \<open>
  The two entries of \<open>LOCATION_PROVIDERS\<close>. Each parser builds an object literal with
  the keys \<open>country\<close>, \<open>city\<close>, \<open>latitude\<close> and \<open>longitude\<close>.
\<close>

definition ipapi_co :: LocationProvider where
  "ipapi_co =
     \<lparr>name = ''ipapi.co'',
      url = ''https://ipapi.co/json/'',
      parser = (\<lambda>data. Obj
        [(''country'', js_or (getProp data ''country_name'') (getProp data ''country'')),
         (''city'', getProp data ''city''),
         (''latitude'', getProp data ''latitude''),
         (''longitude'', getProp data ''longitude'')])\<rparr>"

definition ip_api_com :: LocationProvider where
  "ip_api_com =
     \<lparr>name = ''ip-api.com'',
      url = ''http://ip-api.com/json/'',
      parser = (\<lambda>data. Obj
        [(''country'', getProp data ''country''),
         (''city'', getProp data ''city''),
         (''latitude'', getProp data ''lat''),
         (''longitude'', getProp data ''lon'')])\<rparr>"

definition LOCATION_PROVIDERS :: "LocationProvider list" where
  "LOCATION_PROVIDERS = [ipapi_co, ip_api_com]"

definition REQUEST_TIMEOUT :: nat where
  "REQUEST_TIMEOUT = 5000"

text \<open>What a call leaves behind: the requests issued and the console lines.\<close>

datatype event = Fetch string | Warn string | Log string

text \<open>
  The body of the \<open>try\<close> of \<open>fetchFromProvider\<close>. The abort timer is armed before the
  request: a request that has not settled after \<open>REQUEST_TIMEOUT\<close> milliseconds is
  aborted, and \<open>fetch\<close> rejects with an AbortError.
\<close>

definition fetchAttempt :: "LocationProvider \<Rightarrow> nat \<times> fetch_outcome \<Rightarrow> thrown + jsval" where
  "fetchAttempt provider settled =
     (if REQUEST_TIMEOUT \<le> fst settled
      then Inl (Exception ''AbortError'' ''The operation was aborted.'')
      else case snd settled of
             FetchRejects err \<Rightarrow> Inl err
           | Response ok status statusText body \<Rightarrow>
               if \<not> ok
               then Inl (Exception ''Error''
                      (''HTTP '' @ numberToString 10 status @ '': '' @ statusText))
               else (case body of
                       Inl err \<Rightarrow> Inl err
                     | Inr data \<Rightarrow>
                         if \<not> truthy data \<or> typeof data \<noteq> ''object''
                         then Inl (Exception ''Error'' ''Invalid response data format'')
                         else (let locationData = parser provider data
                               in if \<not> truthy (getProp locationData ''country'')
                                     \<or> \<not> truthy (getProp locationData ''city'')
                                  then Inl (Exception ''Error''
                                         ''Missing required location fields'')
                                  else Inr locationData)))"

text \<open>The line the \<open>catch\<close> of \<open>fetchFromProvider\<close> writes.\<close>

fun fetchWarning :: "LocationProvider \<Rightarrow> thrown \<Rightarrow> event" where
  "fetchWarning provider (Exception nm message) =
     (if nm = ''AbortError''
      then Warn (''Location request to '' @ name provider @ '' timed out after ''
                 @ numberToString 10 REQUEST_TIMEOUT @ ''ms'')
      else Warn (''Failed to fetch location from '' @ name provider @ '': '' @ message))"
| "fetchWarning provider (NonError v) =
     Warn (''Unknown error fetching location from '' @ name provider @ '': '' @ v)"

text \<open>
  \<open>fetchFromProvider\<close> resolves to the location or to \<open>undefined\<close>; with it, the events
  of the attempt and the milliseconds it took.
\<close>

definition fetchFromProvider :: "LocationProvider \<Rightarrow> env \<Rightarrow> jsval \<times> event list \<times> nat" where
  "fetchFromProvider provider e =
     (let settled = fetch e (url provider);
          elapsed = min (fst settled) REQUEST_TIMEOUT
      in case fetchAttempt provider settled of
           Inr locationData \<Rightarrow> (locationData, [Fetch (url provider)], elapsed)
         | Inl error \<Rightarrow>
             (Undefined, [Fetch (url provider), fetchWarning provider error], elapsed))"

text \<open>The relational operators and \<open>isNaN\<close> on values that are numbers.\<close>

fun num_less :: "jsnum \<Rightarrow> jsnum \<Rightarrow> bool" where
  "num_less NaN _ = False"
| "num_less _ NaN = False"
| "num_less PosInfinity _ = False"
| "num_less _ NegInfinity = False"
| "num_less NegInfinity _ = True"
| "num_less _ PosInfinity = True"
| "num_less (Fin a) (Fin b) = (a < b)"

fun js_less :: "jsval \<Rightarrow> jsval \<Rightarrow> bool" where
  "js_less (Num a) (Num b) = num_less a b"
| "js_less _ _ = False"

fun isNaN :: "jsval \<Rightarrow> bool" where
  "isNaN (Num NaN) = True"
| "isNaN _ = False"

text \<open>
  The operands of the comparisons are numbers wherever the comparisons are reached: the
  \<open>typeof\<close> tests come first in the disjunction.
\<close>

definition validateLocationData :: "jsval \<Rightarrow> bool" where
  "validateLocationData location =
     (if \<not> truthy (getProp location ''country'') \<or> \<not> truthy (getProp location ''city'')
      then False
      else if getProp location ''latitude'' \<noteq> Undefined
              \<or> getProp location ''longitude'' \<noteq> Undefined
      then (if typeof (getProp location ''latitude'') \<noteq> ''number''
               \<or> typeof (getProp location ''longitude'') \<noteq> ''number''
               \<or> isNaN (getProp location ''latitude'')
               \<or> isNaN (getProp location ''longitude'')
               \<or> js_less (getProp location ''latitude'') (Num (Fin (- 90)))
               \<or> js_less (Num (Fin 90)) (getProp location ''latitude'')
               \<or> js_less (getProp location ''longitude'') (Num (Fin (- 180)))
               \<or> js_less (Num (Fin 180)) (getProp location ''longitude'')
            then False
            else True)
      else True)"

text \<open>
  The loop of \<open>getLocation\<close> over the providers. The promise it returns is settled:
  \<open>Inr\<close> is fulfilled, \<open>Inl\<close> rejected.
\<close>

fun getLocation_loop :: "LocationProvider list \<Rightarrow> env \<Rightarrow> (thrown + jsval) \<times> event list \<times> nat" where
  "getLocation_loop [] e =
     (Inr Undefined, [Warn ''All location providers failed. Location data unavailable.''], 0)"
| "getLocation_loop (provider # providers) e =
     (case fetchFromProvider provider e of
        (locationData, events, elapsed) \<Rightarrow>
          if truthy locationData \<and> validateLocationData locationData
          then (Inr locationData,
                events @ [Log (''Successfully retrieved location from '' @ name provider)],
                elapsed)
          else (case getLocation_loop providers e of
                  (result, events', elapsed') \<Rightarrow>
                    (result, events @ events', elapsed + elapsed')))"

definition getLocation :: "env \<Rightarrow> (thrown + jsval) \<times> event list \<times> nat" where
  "getLocation e = getLocation_loop LOCATION_PROVIDERS e"

text \<open>
  \<open>Promise.race\<close> of \<open>getLocation()\<close> against a timer: the location where the provider
  sequence settles before the timer fires, \<open>undefined\<close> otherwise.
\<close>

definition getLocationWithTimeout :: "nat \<Rightarrow> env \<Rightarrow> thrown + jsval" where
  "getLocationWithTimeout timeoutMs e =
     (case getLocation e of
        (result, events, elapsed) \<Rightarrow> if elapsed < timeoutMs then result else Inr Undefined)"

section \<open>Aggregator (metadata.ts)\<close>

text \<open>The options object: a key that is \<open>None\<close> is left out and takes its default.\<close>

record options =
  includeLocation :: "bool option"
  includeFingerprint :: "bool option"
  locationTimeout :: "nat option"

text \<open>\<open>Promise.allSettled\<close> gives each promise's outcome; a rejected one reads as the default.\<close>

definition settledOr :: "jsval \<Rightarrow> thrown + jsval \<Rightarrow> jsval" where
  "settledOr d settled = (case settled of Inr v \<Rightarrow> v | Inl reason \<Rightarrow> d)"

text \<open>The fingerprint task: the \<open>try\<close> around \<open>getFingerprint(false)\<close> returns \<open>undefined\<close>.\<close>

definition fingerprintTask :: "env \<Rightarrow> thrown + jsval" where
  "fingerprintTask e =
     try_catch (map_sum id Str (getFingerprint False e)) (\<lambda>error. Inr Undefined)"

text \<open>
  \<open>collectMetadata\<close> calls \<open>getLocation(locationTimeout)\<close>; \<open>getLocation\<close> declares
  no parameter, so the argument is dropped.
\<close>

definition collectMetadata :: "options \<Rightarrow> env \<Rightarrow> thrown + jsval" where
  "collectMetadata opts e =
     (let includeLocation = (case includeLocation opts of None \<Rightarrow> False | Some b \<Rightarrow> b);
          includeFingerprint = (case includeFingerprint opts of None \<Rightarrow> True | Some b \<Rightarrow> b);
          locationTimeout = (case locationTimeout opts of None \<Rightarrow> 2000 | Some t \<Rightarrow> t)
      in case parseUserAgent (navigator e) of
           Inl error \<Rightarrow> Inl error
         | Inr uaInfo \<Rightarrow>
             (let locationData = (if includeLocation then fst (getLocation e) else Inr Null);
                  fingerprint = (if includeFingerprint then fingerprintTask e else Inr Undefined);
                  location = settledOr Null locationData;
                  fp = settledOr Undefined fingerprint
              in Inr (Obj
                   (spread uaInfo
                    @ [(''ipAddress'',
                        if truthy location then getProp location ''ip'' else Str [])]
                    @ spread (js_and fp (Obj [(''fingerprint'', fp)]))
                    @ spread (js_and location (Obj
                        [(''location'', Obj
                           ([(''country'', getProp location ''country''),
                             (''city'', getProp location ''city'')]
                            @ spread (js_and (Bool (getProp location ''latitude'' \<noteq> Undefined))
                                (Obj [(''latitude'', getProp location ''latitude'')]))
                            @ spread (js_and (Bool (getProp location ''longitude'' \<noteq> Undefined))
                                (Obj [(''longitude'', getProp location ''longitude'')]))))]))))))"

section \<open>Concrete environments\<close>

text \<open>No network: every request fails after 40 ms.\<close>

definition offline :: "string \<Rightarrow> nat \<times> fetch_outcome" where
  "offline u = (40, FetchRejects (Exception ''TypeError'' ''Failed to fetch''))"

text \<open>A desktop browser page without network, as the test setup of the repository has it.\<close>

definition browser_userAgent :: string where
  "browser_userAgent = ''Mozilla/5.0 (Macintosh; Intel Mac OS X 10_15_7) AppleWebKit/537.36 (KHTML, like Gecko) Chrome/91.0.4472.124 Safari/537.36''"

definition browser_navigator :: navigator where
  "browser_navigator =
     \<lparr>userAgent = Inr (Some browser_userAgent),
      language = Inr (Some ''en-US''),
      languages = Inr (Some [''en-US'', ''en'']),
      platform = Inr (Some ''MacIntel''),
      cookieEnabled = Inr True,
      doNotTrack = Inr None,
      hardwareConcurrency = Inr (Some 8),
      maxTouchPoints = Inr (Some 0),
      vendorSub = Inr (Some []),
      productSub = Inr (Some ''20030107''),
      userAgentData_platform = Inr (Some ''macOS'')\<rparr>"

definition browser_screen :: Screen where
  "browser_screen =
     \<lparr>width = Inr (Some 1920), height = Inr (Some 1080),
      colorDepth = Inr (Some 24), pixelDepth = Inr (Some 24)\<rparr>"

definition browser_env :: env where
  "browser_env =
     \<lparr>navigator = Some browser_navigator,
      screen = Some browser_screen,
      timezoneOffset = - 120,
      now = 1762084800000,
      context2d = Missing,
      webgl = Missing,
      clientjs = Inl (Exception ''Error'' ''ClientJS failed''),
      fetch = offline\<rparr>"

text \<open>The same in a worker: \<open>navigator\<close> exists, \<open>screen\<close> does not.\<close>

definition worker_env :: env where
  "worker_env = browser_env\<lparr>screen := None\<rparr>"

text \<open>A server-side rendering pass: neither global exists.\<close>

definition server_env :: env where
  "server_env = browser_env\<lparr>navigator := None, screen := None\<rparr>"







text \<open>
  The first provider answers after 1500 ms with a body that names the address; the second
  is not reachable.
\<close>

definition ipapi_answers :: "string \<Rightarrow> nat \<times> fetch_outcome" where
  "ipapi_answers u =
     (if u = ''https://ipapi.co/json/''
      then (1500, Response True 200 ''OK'' (Inr (Obj
             [(''ip'', Str ''203.0.113.7''),
              (''country_name'', Str ''Luxembourg''),
              (''city'', Str ''Belval''),
              (''latitude'', Num (Fin (495042 / 10000))),
              (''longitude'', Num (Fin (59481 / 10000)))])))
      else offline u)"

definition located_env :: env where
  "located_env = browser_env\<lparr>fetch := ipapi_answers\<rparr>"

text \<open>The first provider answers with an error status, the second with a body.\<close>

definition ip_api_answers :: "string \<Rightarrow> nat \<times> fetch_outcome" where
  "ip_api_answers u =
     (if u = ''http://ip-api.com/json/''
      then (300, Response True 200 ''OK'' (Inr (Obj
             [(''query'', Str ''198.51.100.4''),
              (''country'', Str ''Canada''),
              (''city'', Str ''Toronto''),
              (''lat'', Num (Fin (436532 / 10000))),
              (''lon'', Num (Fin (- 793832 / 10000)))])))
      else (120, Response False 404 ''Not Found'' (Inr Null)))"

definition fallback_env :: env where
  "fallback_env = browser_env\<lparr>fetch := ip_api_answers\<rparr>"

text \<open>Two option objects: everything asked for, and location only.\<close>

definition all_options :: options where
  "all_options =
     \<lparr>includeLocation = Some True, includeFingerprint = Some True, locationTimeout = Some 100\<rparr>"

definition location_options :: options where
  "location_options =
     \<lparr>includeLocation = Some True, includeFingerprint = Some False, locationTimeout = Some 100\<rparr>"

section \<open>The provider sequence, as the claims speak of it\<close>

text \<open>A provider's attempt is accepted when it yields a location that passes validation.\<close>

definition accepted :: "env \<Rightarrow> LocationProvider \<Rightarrow> bool" where
  "accepted e provider =
     (case fetchFromProvider provider e of
        (locationData, events, elapsed) \<Rightarrow>
          truthy locationData \<and> validateLocationData locationData)"

text \<open>The requests among the events of a call, in order.\<close>

fun requests :: "event list \<Rightarrow> string list" where
  "requests [] = []"
| "requests (Fetch u # es) = u # requests es"
| "requests (Warn w # es) = requests es"
| "requests (Log l # es) = requests es"

section \<open>Properties of the user-agent parser\<close>

lemma detectDeviceType_cases:
  "detectDeviceType ua = ''desktop'' \<or> detectDeviceType ua = ''mobile''
     \<or> detectDeviceType ua = ''tablet''"
  by (simp add: detectDeviceType_def Let_def)

lemma canonicalize_toLowerCase_unit: "canonicalize (toLowerCase_unit c) = canonicalize c"
proof -
  have b: "(of_char c :: nat) < 256" by simp
  show ?thesis
    using b by (auto simp: canonicalize_def toLowerCase_unit_def Let_def)
qed

lemma map_canonicalize_toLowerCase: "map canonicalize (toLowerCase s) = map canonicalize s"
  by (simp add: toLowerCase_def canonicalize_toLowerCase_unit)

lemma regex_test_i_toLowerCase: "regex_test_i re (toLowerCase s) = regex_test_i re s"
  by (simp add: regex_test_i_def map_canonicalize_toLowerCase)

lemma sublist_chain: "sublist xs ys \<Longrightarrow> sublist ys zs \<Longrightarrow> sublist xs zs"
  using sublist_order.order_trans by blast

lemma regex_test_i_weaken:
  assumes "sublist (map canonicalize p) (map canonicalize q)" and "regex_test_i [q] s"
  shows "regex_test_i [p] s"
  using assms sublist_chain by (auto simp: regex_test_i_def)

lemma chrome_slash_chrome: "regex_test_i [''chrome/''] s \<Longrightarrow> regex_test_i [''chrome''] s"
  by (rule regex_test_i_weaken[of "''chrome''" "''chrome/''"]) (code_simp, assumption)

lemma regex_test_i_Cons:
  "regex_test_i (p # ps) s = (regex_test_i [p] s \<or> regex_test_i ps s)"
  by (auto simp: regex_test_i_def)

lemma regex_test_i_Nil: "regex_test_i [] s = False"
  by (simp add: regex_test_i_def)

lemma detectBrowser_table:
  "detectBrowser ua =
     (if regex_test_i [''safari''] ua \<and> \<not> regex_test_i [''chrome''] ua then ''Safari''
      else if regex_test_i [''edg/''] ua then ''Edge''
      else if regex_test_i [''edge/''] ua then ''Edge Legacy''
      else if regex_test_i [''opr/''] ua then ''Opera''
      else if regex_test_i [''brave/''] ua then ''Brave''
      else if regex_test_i [''vivaldi/''] ua then ''Vivaldi''
      else if regex_test_i [''chrome/''] ua then ''Chrome''
      else if regex_test_i [''firefox/''] ua then ''Firefox''
      else if regex_test_i [''safari/''] ua then ''Safari''
      else if regex_test_i [''msie'', ''trident''] ua then ''Internet Explorer''
      else if regex_test_i [''samsung''] ua then ''Samsung Internet''
      else if regex_test_i [''ucbrowser''] ua then ''UC Browser''
      else ''Unknown'')"
  unfolding detectBrowser_def Let_def browsers_def regex_test_i_toLowerCase
  by (simp only: find.simps fst_conv snd_conv option.case if_distrib[of "case_option _ _"] cong: if_cong)

text \<open>
  Claim C7, as the code has it. A string that contains \<open>safari\<close> and does not contain
  \<open>chrome\<close> (both in any case) is classified Safari. Where both occur, the result is
  Safari exactly when the table scan reaches its \<open>safari/\<close> row: the string contains
  \<open>safari/\<close> and none of \<open>edg/\<close>, \<open>edge/\<close>, \<open>opr/\<close>, \<open>brave/\<close>,
  \<open>vivaldi/\<close>, \<open>chrome/\<close>, \<open>firefox/\<close>. A string with the Chrome product token
  \<open>chrome/\<close> is therefore never classified Safari.
\<close>

theorem detectBrowser_safari:
  "(regex_test_i [''safari''] ua \<and> \<not> regex_test_i [''chrome''] ua \<longrightarrow> detectBrowser ua = ''Safari'')
   \<and> (regex_test_i [''safari''] ub \<and> regex_test_i [''chrome''] ub \<longrightarrow>
        (detectBrowser ub = ''Safari'') =
          (regex_test_i [''safari/''] ub \<and>
           \<not> regex_test_i [''edg/'', ''edge/'', ''opr/'', ''brave/'', ''vivaldi/'', ''chrome/'', ''firefox/''] ub))
   \<and> (regex_test_i [''chrome/''] uc \<longrightarrow> detectBrowser uc \<noteq> ''Safari'')"
proof (intro conjI impI)
  assume "regex_test_i [''safari''] ua \<and> \<not> regex_test_i [''chrome''] ua"
  then show "detectBrowser ua = ''Safari''" by (simp add: detectBrowser_def)
next
  assume "regex_test_i [''safari''] ub \<and> regex_test_i [''chrome''] ub"
  then show "(detectBrowser ub = ''Safari'') =
          (regex_test_i [''safari/''] ub \<and>
           \<not> regex_test_i [''edg/'', ''edge/'', ''opr/'', ''brave/'', ''vivaldi/'', ''chrome/'', ''firefox/''] ub)"
    by (simp add: detectBrowser_table regex_test_i_Cons[of _ "_ # _"] regex_test_i_Nil)
next
  assume a: "regex_test_i [''chrome/''] uc"
  then have "regex_test_i [''chrome''] uc" by (rule chrome_slash_chrome)
  with a show "detectBrowser uc \<noteq> ''Safari''"
    by (simp add: detectBrowser_table)
qed


text \<open>
  The three parts of C7 at a Safari string, at a Safari string that mentions Chromecast
  and at a Chrome string.
\<close>

theorem detectBrowser_safari_witness:
  "regex_test_i [''safari''] ''Mozilla/5.0 (Macintosh) Version/14.1.1 Safari/605.1.15''
   \<and> \<not> regex_test_i [''chrome''] ''Mozilla/5.0 (Macintosh) Version/14.1.1 Safari/605.1.15''
   \<and> detectBrowser ''Mozilla/5.0 (Macintosh) Version/14.1.1 Safari/605.1.15'' = ''Safari''
   \<and> regex_test_i [''safari''] ''Mozilla/5.0 Version/14.1.1 Safari/605.1.15 Chromecast''
   \<and> regex_test_i [''chrome''] ''Mozilla/5.0 Version/14.1.1 Safari/605.1.15 Chromecast''
   \<and> (detectBrowser ''Mozilla/5.0 Version/14.1.1 Safari/605.1.15 Chromecast'' = ''Safari'') =
       (regex_test_i [''safari/''] ''Mozilla/5.0 Version/14.1.1 Safari/605.1.15 Chromecast'' \<and>
        \<not> regex_test_i [''edg/'', ''edge/'', ''opr/'', ''brave/'', ''vivaldi/'', ''chrome/'', ''firefox/'']
            ''Mozilla/5.0 Version/14.1.1 Safari/605.1.15 Chromecast'')
   \<and> regex_test_i [''chrome/''] ''Mozilla/5.0 (Windows NT 10.0) Chrome/91.0.4472.124 Safari/537.36''
   \<and> detectBrowser ''Mozilla/5.0 (Windows NT 10.0) Chrome/91.0.4472.124 Safari/537.36'' \<noteq> ''Safari''"
proof -
  have a: "regex_test_i [''safari''] ''Mozilla/5.0 (Macintosh) Version/14.1.1 Safari/605.1.15''
     \<and> \<not> regex_test_i [''chrome''] ''Mozilla/5.0 (Macintosh) Version/14.1.1 Safari/605.1.15''"
    by code_simp
  have b: "regex_test_i [''safari''] ''Mozilla/5.0 Version/14.1.1 Safari/605.1.15 Chromecast''
     \<and> regex_test_i [''chrome''] ''Mozilla/5.0 Version/14.1.1 Safari/605.1.15 Chromecast''"
    by code_simp
  have c: "regex_test_i [''chrome/''] ''Mozilla/5.0 (Windows NT 10.0) Chrome/91.0.4472.124 Safari/537.36''"
    by code_simp
  from a b c
    detectBrowser_safari [of "''Mozilla/5.0 (Macintosh) Version/14.1.1 Safari/605.1.15''"
      "''Mozilla/5.0 Version/14.1.1 Safari/605.1.15 Chromecast''"
      "''Mozilla/5.0 (Windows NT 10.0) Chrome/91.0.4472.124 Safari/537.36''"]
  show ?thesis by blast
qed

text \<open>
  Claim C7 as stated fails: this string contains a Safari marker and a Chrome marker
  (the \<open>chrome\<close> of Chromecast, which the special case tests for) and is classified
  Safari by the \<open>safari/\<close> row of the table.
\<close>

theorem detectBrowser_safari_with_chrome_counterexample:
  "regex_test_i [''safari''] ''Mozilla/5.0 Version/14.1.1 Safari/605.1.15 Chromecast''
   \<and> regex_test_i [''chrome''] ''Mozilla/5.0 Version/14.1.1 Safari/605.1.15 Chromecast''
   \<and> detectBrowser ''Mozilla/5.0 Version/14.1.1 Safari/605.1.15 Chromecast'' = ''Safari''"
  by code_simp

text \<open>
  Claim C5, checked row by row. The rows \<open>edg/\<close>, \<open>edge/\<close>, \<open>opr/\<close>, \<open>brave/\<close> and
  \<open>vivaldi/\<close> stand before the \<open>chrome/\<close> row: a string with \<open>chrome/\<close> and
  \<open>edg/\<close> resolves to Edge, and one with \<open>chrome/\<close> and any of the others to one of
  these browsers, never to Chrome. The \<open>samsung\<close> row stands after the \<open>chrome/\<close> row:
  the Samsung Internet string of the repository's own test, whose lower-cased copy holds
  both markers, resolves to Chrome.
\<close>

theorem detectBrowser_chromium_priority:
  "(regex_test_i [''chrome/''] (toLowerCase ua) \<and> regex_test_i [''edg/''] (toLowerCase ua)
      \<longrightarrow> detectBrowser ua = ''Edge'')
   \<and> (regex_test_i [''chrome/''] (toLowerCase ub)
       \<and> regex_test_i [''edge/'', ''opr/'', ''brave/'', ''vivaldi/''] (toLowerCase ub)
      \<longrightarrow> detectBrowser ub \<in> {''Edge'', ''Edge Legacy'', ''Opera'', ''Brave'', ''Vivaldi''})
   \<and> regex_test_i [''chrome/'']
       (toLowerCase ''Mozilla/5.0 (Linux; Android 11; SM-G991B) AppleWebKit/537.36 (KHTML, like Gecko) SamsungBrowser/14.2 Chrome/87.0.4280.141 Mobile Safari/537.36'')
   \<and> regex_test_i [''samsung'']
       (toLowerCase ''Mozilla/5.0 (Linux; Android 11; SM-G991B) AppleWebKit/537.36 (KHTML, like Gecko) SamsungBrowser/14.2 Chrome/87.0.4280.141 Mobile Safari/537.36'')
   \<and> detectBrowser ''Mozilla/5.0 (Linux; Android 11; SM-G991B) AppleWebKit/537.36 (KHTML, like Gecko) SamsungBrowser/14.2 Chrome/87.0.4280.141 Mobile Safari/537.36'' = ''Chrome''"
proof (intro conjI impI)
  assume a: "regex_test_i [''chrome/''] (toLowerCase ua) \<and> regex_test_i [''edg/''] (toLowerCase ua)"
  then have "regex_test_i [''chrome''] ua"
    using chrome_slash_chrome regex_test_i_toLowerCase by blast
  with a show "detectBrowser ua = ''Edge''"
    by (simp add: detectBrowser_table regex_test_i_toLowerCase)
next
  assume b: "regex_test_i [''chrome/''] (toLowerCase ub)
       \<and> regex_test_i [''edge/'', ''opr/'', ''brave/'', ''vivaldi/''] (toLowerCase ub)"
  then have "regex_test_i [''chrome''] ub"
    using chrome_slash_chrome regex_test_i_toLowerCase by blast
  with b show "detectBrowser ub \<in> {''Edge'', ''Edge Legacy'', ''Opera'', ''Brave'', ''Vivaldi''}"
    by (auto simp: detectBrowser_table regex_test_i_toLowerCase
          regex_test_i_Cons [of _ "_ # _"] regex_test_i_Nil)
qed (code_simp+)

text \<open>
  The two ordering laws of C5 at the Edge and the Opera strings of the repository's tests.
\<close>

theorem detectBrowser_chromium_priority_witness:
  "regex_test_i [''chrome/'']
     (toLowerCase ''Mozilla/5.0 (Windows NT 10.0; Win64; x64) AppleWebKit/537.36 (KHTML, like Gecko) Chrome/91.0.4472.124 Safari/537.36 Edg/91.0.864.59'')
   \<and> regex_test_i [''edg/'']
     (toLowerCase ''Mozilla/5.0 (Windows NT 10.0; Win64; x64) AppleWebKit/537.36 (KHTML, like Gecko) Chrome/91.0.4472.124 Safari/537.36 Edg/91.0.864.59'')
   \<and> detectBrowser ''Mozilla/5.0 (Windows NT 10.0; Win64; x64) AppleWebKit/537.36 (KHTML, like Gecko) Chrome/91.0.4472.124 Safari/537.36 Edg/91.0.864.59'' = ''Edge''
   \<and> regex_test_i [''chrome/'']
     (toLowerCase ''Mozilla/5.0 (Windows NT 10.0; Win64; x64) AppleWebKit/537.36 (KHTML, like Gecko) Chrome/91.0.4472.124 Safari/537.36 OPR/77.0.4054.277'')
   \<and> regex_test_i [''edge/'', ''opr/'', ''brave/'', ''vivaldi/'']
     (toLowerCase ''Mozilla/5.0 (Windows NT 10.0; Win64; x64) AppleWebKit/537.36 (KHTML, like Gecko) Chrome/91.0.4472.124 Safari/537.36 OPR/77.0.4054.277'')
   \<and> detectBrowser ''Mozilla/5.0 (Windows NT 10.0; Win64; x64) AppleWebKit/537.36 (KHTML, like Gecko) Chrome/91.0.4472.124 Safari/537.36 OPR/77.0.4054.277''
       \<in> {''Edge'', ''Edge Legacy'', ''Opera'', ''Brave'', ''Vivaldi''}"
proof -
  have a: "regex_test_i [''chrome/'']
     (toLowerCase ''Mozilla/5.0 (Windows NT 10.0; Win64; x64) AppleWebKit/537.36 (KHTML, like Gecko) Chrome/91.0.4472.124 Safari/537.36 Edg/91.0.864.59'')
   \<and> regex_test_i [''edg/'']
     (toLowerCase ''Mozilla/5.0 (Windows NT 10.0; Win64; x64) AppleWebKit/537.36 (KHTML, like Gecko) Chrome/91.0.4472.124 Safari/537.36 Edg/91.0.864.59'')"
    by code_simp
  have b: "regex_test_i [''chrome/'']
     (toLowerCase ''Mozilla/5.0 (Windows NT 10.0; Win64; x64) AppleWebKit/537.36 (KHTML, like Gecko) Chrome/91.0.4472.124 Safari/537.36 OPR/77.0.4054.277'')
   \<and> regex_test_i [''edge/'', ''opr/'', ''brave/'', ''vivaldi/'']
     (toLowerCase ''Mozilla/5.0 (Windows NT 10.0; Win64; x64) AppleWebKit/537.36 (KHTML, like Gecko) Chrome/91.0.4472.124 Safari/537.36 OPR/77.0.4054.277'')"
    by code_simp
  from a b
    detectBrowser_chromium_priority
      [of "''Mozilla/5.0 (Windows NT 10.0; Win64; x64) AppleWebKit/537.36 (KHTML, like Gecko) Chrome/91.0.4472.124 Safari/537.36 Edg/91.0.864.59''"
          "''Mozilla/5.0 (Windows NT 10.0; Win64; x64) AppleWebKit/537.36 (KHTML, like Gecko) Chrome/91.0.4472.124 Safari/537.36 OPR/77.0.4054.277''"]
  show ?thesis by blast
qed

text \<open>
  Claim C6 at a string that matches both \<open>/chromeos/\<close> and \<open>/linux/\<close>: the Linux
  row stands before the Chrome OS row, and the platform resolves to Linux.
\<close>

theorem detectPlatform_chromeos_resolves_to_linux:
  "regex_test [''chromeos'']
     (toLowerCase ''Mozilla/5.0 (X11; Linux x86_64; ChromeOS 14541.0.0) AppleWebKit/537.36 (KHTML, like Gecko) Chrome/120.0.0.0 Safari/537.36'')
   \<and> regex_test [''linux'']
     (toLowerCase ''Mozilla/5.0 (X11; Linux x86_64; ChromeOS 14541.0.0) AppleWebKit/537.36 (KHTML, like Gecko) Chrome/120.0.0.0 Safari/537.36'')
   \<and> detectPlatform ''Mozilla/5.0 (X11; Linux x86_64; ChromeOS 14541.0.0) AppleWebKit/537.36 (KHTML, like Gecko) Chrome/120.0.0.0 Safari/537.36'' = ''Linux''"
  by code_simp

lemma parseUserAgent_string:
  "parseUserAgent (Some (n\<lparr>userAgent := Inr (Some ua)\<rparr>)) =
     Inr (Obj [(''userAgent'', Str ua),
               (''platform'', Str (detectPlatform ua)),
               (''browser'', Str (detectBrowser ua)),
               (''deviceType'', Str (detectDeviceType ua))])"
  by (simp add: parseUserAgent_def)

lemma classify_empty:
  "detectPlatform [] = ''Unknown'' \<and> detectBrowser [] = ''Unknown'' \<and> detectDeviceType [] = ''desktop''"
  by code_simp

lemma classify_malformed:
  "detectPlatform ''Malformed UA String Without Standard Format'' = ''Unknown''
   \<and> detectBrowser ''Malformed UA String Without Standard Format'' = ''Unknown''
   \<and> detectDeviceType ''Malformed UA String Without Standard Format'' = ''desktop''"
  by code_simp

text \<open>
  Claim C10: for every user-agent string the parser returns (it does not throw) a record
  whose device type is desktop, mobile or tablet; the empty string and a malformed string
  give platform Unknown, browser Unknown and device type desktop.
\<close>

theorem parseUserAgent_total:
  "(\<exists>p b d. parseUserAgent (Some (n\<lparr>userAgent := Inr (Some ua)\<rparr>)) =
       Inr (Obj [(''userAgent'', Str ua), (''platform'', Str p),
                 (''browser'', Str b), (''deviceType'', Str d)])
       \<and> d \<in> {''desktop'', ''mobile'', ''tablet''})
   \<and> detectDeviceType ua \<in> {''desktop'', ''mobile'', ''tablet''}
   \<and> parseUserAgent (Some (n\<lparr>userAgent := Inr (Some [])\<rparr>)) =
       Inr (Obj [(''userAgent'', Str []), (''platform'', Str ''Unknown''),
                 (''browser'', Str ''Unknown''), (''deviceType'', Str ''desktop'')])
   \<and> parseUserAgent (Some (n\<lparr>userAgent := Inr (Some ''Malformed UA String Without Standard Format'')\<rparr>)) =
       Inr (Obj [(''userAgent'', Str ''Malformed UA String Without Standard Format''),
                 (''platform'', Str ''Unknown''),
                 (''browser'', Str ''Unknown''), (''deviceType'', Str ''desktop'')])"
proof -
  have d: "detectDeviceType ua \<in> {''desktop'', ''mobile'', ''tablet''}"
    using detectDeviceType_cases [of ua] by blast
  show ?thesis
    unfolding parseUserAgent_string
    using d classify_empty classify_malformed by simp
qed

section \<open>Properties of the fingerprint generator\<close>














lemma arrayLiteral_first_throws: "arrayLiteral (Inl err # xs) = Inl err"
  by simp








lemma hash_values:
  "hashString ''abc'' = ''17862''
   \<and> hashString ''polygenelubricants'' = ''80000000''
   \<and> hashCharacteristics [PStr ''a'', PNum (- 120), PUndefined, PNull, PNum 1920] =
       hashString ''a|-120|||1920''"
  by code_simp






























section \<open>Properties of the geolocation resolver\<close>

lemma coordinate_check:
  "(typeof la \<noteq> ''number'' \<or> typeof lo \<noteq> ''number'' \<or> isNaN la \<or> isNaN lo
     \<or> js_less la (Num (Fin (- 90))) \<or> js_less (Num (Fin 90)) la
     \<or> js_less lo (Num (Fin (- 180))) \<or> js_less (Num (Fin 180)) lo)
   = (\<not> (\<exists>x y. la = Num (Fin x) \<and> lo = Num (Fin y)
            \<and> - 90 \<le> x \<and> x \<le> 90 \<and> - 180 \<le> y \<and> y \<le> 180))"
proof (cases la)
  case (Num a)
  note la = this
  show ?thesis
  proof (cases lo)
    case (Num b)
    with la show ?thesis
      by (cases a; cases b) auto
  qed (simp_all add: la)
qed simp_all

lemma validateLocationData_getProp:
  "validateLocationData loc =
     (truthy (getProp loc ''country'') \<and> truthy (getProp loc ''city'') \<and>
      ((getProp loc ''latitude'' = Undefined \<and> getProp loc ''longitude'' = Undefined) \<or>
       (\<exists>x y. getProp loc ''latitude'' = Num (Fin x) \<and> getProp loc ''longitude'' = Num (Fin y)
          \<and> - 90 \<le> x \<and> x \<le> 90 \<and> - 180 \<le> y \<and> y \<le> 180)))"
  unfolding validateLocationData_def coordinate_check by auto

lemma getProp_location:
  "getProp (Obj [(''country'', c), (''city'', d), (''latitude'', la), (''longitude'', lo)]) ''country'' = c"
  "getProp (Obj [(''country'', c), (''city'', d), (''latitude'', la), (''longitude'', lo)]) ''city'' = d"
  "getProp (Obj [(''country'', c), (''city'', d), (''latitude'', la), (''longitude'', lo)]) ''latitude'' = la"
  "getProp (Obj [(''country'', c), (''city'', d), (''latitude'', la), (''longitude'', lo)]) ''longitude'' = lo"
  by simp_all

text \<open>
  Claim C9: \<open>validateLocationData\<close> accepts a location exactly when country and city
  are truthy (for strings: non-empty) and the coordinates are both \<open>undefined\<close> or both
  finite numbers with latitude in [-90, 90] and longitude in [-180, 180]. Latitude 90 with
  longitude -180 is accepted; latitude 200, latitude -95, longitude 200 and a NaN
  coordinate are rejected, whatever the other coordinate is.
\<close>

theorem validateLocationData_iff:
  "validateLocationData loc =
     (truthy (getProp loc ''country'') \<and> truthy (getProp loc ''city'') \<and>
      ((getProp loc ''latitude'' = Undefined \<and> getProp loc ''longitude'' = Undefined) \<or>
       (\<exists>x y. getProp loc ''latitude'' = Num (Fin x) \<and> getProp loc ''longitude'' = Num (Fin y)
          \<and> - 90 \<le> x \<and> x \<le> 90 \<and> - 180 \<le> y \<and> y \<le> 180)))
   \<and> validateLocationData
        (Obj [(''country'', Str c), (''city'', Str d), (''latitude'', la), (''longitude'', lo)]) =
     (c \<noteq> [] \<and> d \<noteq> [] \<and>
      ((la = Undefined \<and> lo = Undefined) \<or>
       (\<exists>x y. la = Num (Fin x) \<and> lo = Num (Fin y)
          \<and> - 90 \<le> x \<and> x \<le> 90 \<and> - 180 \<le> y \<and> y \<le> 180)))
   \<and> validateLocationData
        (Obj [(''country'', Str ''Test Country''), (''city'', Str ''Test City''),
              (''latitude'', Num (Fin 90)), (''longitude'', Num (Fin (- 180)))])
   \<and> \<not> validateLocationData
        (Obj [(''country'', Str ''Test Country''), (''city'', Str ''Test City''),
              (''latitude'', Num (Fin 200)), (''longitude'', lo1)])
   \<and> \<not> validateLocationData
        (Obj [(''country'', Str ''Test Country''), (''city'', Str ''Test City''),
              (''latitude'', Num (Fin (- 95))), (''longitude'', lo2)])
   \<and> \<not> validateLocationData
        (Obj [(''country'', Str ''Test Country''), (''city'', Str ''Test City''),
              (''latitude'', la3), (''longitude'', Num (Fin 200))])
   \<and> \<not> validateLocationData
        (Obj [(''country'', Str ''Test Country''), (''city'', Str ''Test City''),
              (''latitude'', Num NaN), (''longitude'', lo4)])
   \<and> \<not> validateLocationData
        (Obj [(''country'', Str ''Test Country''), (''city'', Str ''Test City''),
              (''latitude'', la5), (''longitude'', Num NaN)])"
proof (intro conjI)
  show "validateLocationData loc =
     (truthy (getProp loc ''country'') \<and> truthy (getProp loc ''city'') \<and>
      ((getProp loc ''latitude'' = Undefined \<and> getProp loc ''longitude'' = Undefined) \<or>
       (\<exists>x y. getProp loc ''latitude'' = Num (Fin x) \<and> getProp loc ''longitude'' = Num (Fin y)
          \<and> - 90 \<le> x \<and> x \<le> 90 \<and> - 180 \<le> y \<and> y \<le> 180)))"
    by (rule validateLocationData_getProp)
qed (simp_all only: validateLocationData_getProp getProp_location, simp_all)

text \<open>
  C9 at four records: with coordinates, without, with an empty city, and with a latitude
  only.
\<close>

theorem validateLocationData_iff_witness:
  "validateLocationData
     (Obj [(''country'', Str ''Luxembourg''), (''city'', Str ''Belval''),
           (''latitude'', Num (Fin 45)), (''longitude'', Num (Fin (- 75)))])
   \<and> validateLocationData
     (Obj [(''country'', Str ''United Kingdom''), (''city'', Str ''London''),
           (''latitude'', Undefined), (''longitude'', Undefined)])
   \<and> \<not> validateLocationData
     (Obj [(''country'', Str ''Luxembourg''), (''city'', Str []),
           (''latitude'', Undefined), (''longitude'', Undefined)])
   \<and> \<not> validateLocationData
     (Obj [(''country'', Str ''Luxembourg''), (''city'', Str ''Belval''),
           (''latitude'', Num (Fin 45)), (''longitude'', Undefined)])"
  using validateLocationData_iff [of "Obj []" "''Luxembourg''" "''Belval''"
          "Num (Fin 45)" "Num (Fin (- 75))"]
        validateLocationData_iff [of "Obj []" "''United Kingdom''" "''London''" Undefined Undefined]
        validateLocationData_iff [of "Obj []" "''Luxembourg''" "[]" Undefined Undefined]
        validateLocationData_iff [of "Obj []" "''Luxembourg''" "''Belval''"
          "Num (Fin 45)" Undefined]
  by simp

lemma requests_append: "requests (xs @ ys) = requests xs @ requests ys"
  by (induction xs rule: requests.induct) simp_all

lemma requests_fetchWarning: "requests [fetchWarning p x] = []"
  by (cases x) simp_all

lemma fetchFromProvider_requests:
  "requests (fst (snd (fetchFromProvider p e))) = [url p]"
  by (simp add: fetchFromProvider_def Let_def requests_fetchWarning [simplified] split: sum.splits)

lemma getLocation_loop_result:
  "fst (getLocation_loop ps e) =
     Inr (case find (accepted e) ps of
            Some p \<Rightarrow> fst (fetchFromProvider p e)
          | None \<Rightarrow> Undefined)"
proof (induction ps)
  case Nil
  show ?case by simp
next
  case (Cons p ps)
  obtain v ev t where f: "fetchFromProvider p e = (v, ev, t)"
    by (cases "fetchFromProvider p e") auto
  obtain v' ev' t' where g: "getLocation_loop ps e = (v', ev', t')"
    by (cases "getLocation_loop ps e") auto
  show ?case
    using Cons.IH f g by (simp add: accepted_def)
qed

lemma getLocation_loop_requests:
  "requests (fst (snd (getLocation_loop ps e))) =
     map url (takeWhile (\<lambda>p. \<not> accepted e p) ps)
     @ map url (take 1 (dropWhile (\<lambda>p. \<not> accepted e p) ps))"
proof (induction ps)
  case Nil
  show ?case by simp
next
  case (Cons p ps)
  obtain v ev t where f: "fetchFromProvider p e = (v, ev, t)"
    by (cases "fetchFromProvider p e") auto
  have r: "requests ev = [url p]"
    using fetchFromProvider_requests [of p e] f by simp
  obtain v' ev' t' where g: "getLocation_loop ps e = (v', ev', t')"
    by (cases "getLocation_loop ps e") auto
  show ?case
    using Cons.IH f g r by (simp add: accepted_def requests_append)
qed


text \<open>
  Claim C8: \<open>getLocation\<close> runs the loop over \<open>LOCATION_PROVIDERS\<close>. For every
  provider list the loop fulfils (it never rejects) with the result of the first provider,
  in list order, whose attempt is accepted, and with \<open>undefined\<close> where none is; the
  requests it issues are those of the providers before the first accepted one and that
  one, so no later provider is consulted. For the two providers of the source: one request
  where the first is accepted, two otherwise.
\<close>

theorem getLocation_first_valid:
  "getLocation e = getLocation_loop LOCATION_PROVIDERS e
   \<and> (\<exists>v. fst (getLocation_loop ps e) = Inr v)
   \<and> fst (getLocation_loop ps e) =
       Inr (case find (accepted e) ps of
              Some p \<Rightarrow> fst (fetchFromProvider p e)
            | None \<Rightarrow> Undefined)
   \<and> requests (fst (snd (getLocation_loop ps e))) =
       map url (takeWhile (\<lambda>p. \<not> accepted e p) ps)
       @ map url (take 1 (dropWhile (\<lambda>p. \<not> accepted e p) ps))
   \<and> (accepted e1 ipapi_co \<longrightarrow>
        fst (getLocation e1) = Inr (fst (fetchFromProvider ipapi_co e1))
        \<and> requests (fst (snd (getLocation e1))) = [''https://ipapi.co/json/''])
   \<and> (\<not> accepted e2 ipapi_co \<and> accepted e2 ip_api_com \<longrightarrow>
        fst (getLocation e2) = Inr (fst (fetchFromProvider ip_api_com e2))
        \<and> requests (fst (snd (getLocation e2))) =
            [''https://ipapi.co/json/'', ''http://ip-api.com/json/''])
   \<and> (\<not> accepted e3 ipapi_co \<and> \<not> accepted e3 ip_api_com \<longrightarrow>
        fst (getLocation e3) = Inr Undefined
        \<and> requests (fst (snd (getLocation e3))) =
            [''https://ipapi.co/json/'', ''http://ip-api.com/json/''])"
proof -
  have u: "url ipapi_co = ''https://ipapi.co/json/''" "url ip_api_com = ''http://ip-api.com/json/''"
    by (simp_all add: ipapi_co_def ip_api_com_def)
  have r: "\<And>x. fst (getLocation x) =
       Inr (case find (accepted x) [ipapi_co, ip_api_com] of
              Some p \<Rightarrow> fst (fetchFromProvider p x)
            | None \<Rightarrow> Undefined)"
    unfolding getLocation_def LOCATION_PROVIDERS_def by (rule getLocation_loop_result)
  have q: "\<And>x. requests (fst (snd (getLocation x))) =
       map url (takeWhile (\<lambda>p. \<not> accepted x p) [ipapi_co, ip_api_com])
       @ map url (take 1 (dropWhile (\<lambda>p. \<not> accepted x p) [ipapi_co, ip_api_com]))"
    unfolding getLocation_def LOCATION_PROVIDERS_def by (rule getLocation_loop_requests)
  show ?thesis
  proof (intro conjI impI)
    show "getLocation e = getLocation_loop LOCATION_PROVIDERS e"
      by (simp add: getLocation_def)
    show "\<exists>v. fst (getLocation_loop ps e) = Inr v"
      by (simp add: getLocation_loop_result)
    show "fst (getLocation_loop ps e) =
       Inr (case find (accepted e) ps of
              Some p \<Rightarrow> fst (fetchFromProvider p e)
            | None \<Rightarrow> Undefined)"
      by (rule getLocation_loop_result)
    show "requests (fst (snd (getLocation_loop ps e))) =
       map url (takeWhile (\<lambda>p. \<not> accepted e p) ps)
       @ map url (take 1 (dropWhile (\<lambda>p. \<not> accepted e p) ps))"
      by (rule getLocation_loop_requests)
  qed (simp_all add: r q u)
qed

text \<open>
  C8 where the first provider answers, where only the second does, and without network.
\<close>

theorem getLocation_first_valid_witness:
  "accepted located_env ipapi_co
   \<and> fst (getLocation located_env) = Inr (fst (fetchFromProvider ipapi_co located_env))
   \<and> requests (fst (snd (getLocation located_env))) = [''https://ipapi.co/json/'']
   \<and> \<not> accepted fallback_env ipapi_co \<and> accepted fallback_env ip_api_com
   \<and> fst (getLocation fallback_env) = Inr (fst (fetchFromProvider ip_api_com fallback_env))
   \<and> requests (fst (snd (getLocation fallback_env))) =
        [''https://ipapi.co/json/'', ''http://ip-api.com/json/'']
   \<and> \<not> accepted browser_env ipapi_co \<and> \<not> accepted browser_env ip_api_com
   \<and> fst (getLocation browser_env) = Inr Undefined
   \<and> requests (fst (snd (getLocation browser_env))) =
        [''https://ipapi.co/json/'', ''http://ip-api.com/json/'']"
proof -
  have a: "accepted located_env ipapi_co"
    by code_simp
  have b: "\<not> accepted fallback_env ipapi_co \<and> accepted fallback_env ip_api_com"
    by code_simp
  have c: "\<not> accepted browser_env ipapi_co \<and> \<not> accepted browser_env ip_api_com"
    by code_simp
  from a b c
    getLocation_first_valid [of browser_env "[]" located_env fallback_env browser_env]
  show ?thesis by blast
qed

section \<open>Properties of the aggregator\<close>

lemma spread_falsy: "\<not> truthy v \<Longrightarrow> spread v = []"
  by (cases v) simp_all

lemma spread_js_and: "spread (js_and v (Obj ps)) = (if truthy v then ps else [])"
  by (simp add: js_and_def spread_falsy)

lemma parseUserAgent_Inr:
  assumes "parseUserAgent n = Inr u"
  shows "\<exists>ua. u = Obj [(''userAgent'', Str ua),
                        (''platform'', Str (detectPlatform ua)),
                        (''browser'', Str (detectBrowser ua)),
                        (''deviceType'', Str (detectDeviceType ua))]"
  using assms by (auto simp: parseUserAgent_def split: option.splits sum.splits)

lemma fingerprintTask_Inr: "\<exists>v. fingerprintTask e = Inr v"
  by (cases "getFingerprint False e") (simp_all add: fingerprintTask_def try_catch_def)

lemma fingerprintTask_failed:
  "getFingerprint False e = Inl err \<Longrightarrow> fingerprintTask e = Inr Undefined"
  by (simp add: fingerprintTask_def try_catch_def)

lemma collectMetadata_Inl:
  "parseUserAgent (navigator e) = Inl err \<Longrightarrow> collectMetadata opts e = Inl err"
  by (simp add: collectMetadata_def)

lemma collectMetadata_Inr:
  assumes "parseUserAgent (navigator e) = Inr uaInfo"
  shows "\<exists>m. collectMetadata opts e = Inr m
     \<and> hasKey m ''userAgent'' \<and> getProp m ''userAgent'' = getProp uaInfo ''userAgent''
     \<and> hasKey m ''platform'' \<and> getProp m ''platform'' = getProp uaInfo ''platform''
     \<and> hasKey m ''browser'' \<and> getProp m ''browser'' = getProp uaInfo ''browser''
     \<and> hasKey m ''deviceType'' \<and> getProp m ''deviceType'' = getProp uaInfo ''deviceType''
     \<and> ((\<exists>err. getFingerprint False e = Inl err) \<longrightarrow> \<not> hasKey m ''fingerprint'')
     \<and> (fst (getLocation e) = Inr Undefined \<longrightarrow> \<not> hasKey m ''location'')"
proof -
  obtain ua where u: "uaInfo = Obj [(''userAgent'', Str ua),
                        (''platform'', Str (detectPlatform ua)),
                        (''browser'', Str (detectBrowser ua)),
                        (''deviceType'', Str (detectDeviceType ua))]"
    using parseUserAgent_Inr [OF assms] by blast
  obtain v where v: "fingerprintTask e = Inr v"
    using fingerprintTask_Inr by blast
  have f: "\<And>err. getFingerprint False e = Inl err \<Longrightarrow> v = Undefined"
    using fingerprintTask_failed v by fastforce
  show ?thesis
    using assms f
    by (auto simp: collectMetadata_def Let_def u v settledOr_def spread_js_and
          split: option.splits)
qed


text \<open>
  Claim C4: \<open>collectMetadata\<close> rejects exactly when \<open>parseUserAgent\<close> throws, and
  then with that error. Otherwise it resolves to a record that holds the four classifier
  fields as parsed; where \<open>getFingerprint\<close> throws the record has no \<open>fingerprint\<close>
  key, and where the location lookup yields \<open>undefined\<close> it has no \<open>location\<close> key.
\<close>

theorem collectMetadata_rejects_iff:
  "((\<exists>err. collectMetadata opts e = Inl err) = (\<exists>err. parseUserAgent (navigator e) = Inl err))
   \<and> (parseUserAgent (navigator e1) = Inl err1 \<longrightarrow> collectMetadata opts1 e1 = Inl err1)
   \<and> (parseUserAgent (navigator e2) = Inr uaInfo \<longrightarrow>
        (\<exists>m. collectMetadata opts2 e2 = Inr m
           \<and> hasKey m ''userAgent'' \<and> getProp m ''userAgent'' = getProp uaInfo ''userAgent''
           \<and> hasKey m ''platform'' \<and> getProp m ''platform'' = getProp uaInfo ''platform''
           \<and> hasKey m ''browser'' \<and> getProp m ''browser'' = getProp uaInfo ''browser''
           \<and> hasKey m ''deviceType'' \<and> getProp m ''deviceType'' = getProp uaInfo ''deviceType''
           \<and> ((\<exists>err. getFingerprint False e2 = Inl err) \<longrightarrow> \<not> hasKey m ''fingerprint'')
           \<and> (fst (getLocation e2) = Inr Undefined \<longrightarrow> \<not> hasKey m ''location'')))"
proof (intro conjI impI)
  show "(\<exists>err. collectMetadata opts e = Inl err) = (\<exists>err. parseUserAgent (navigator e) = Inl err)"
  proof (cases "parseUserAgent (navigator e)")
    case (Inl err)
    then show ?thesis using collectMetadata_Inl [of e err opts] by simp
  next
    case (Inr u)
    then show ?thesis using collectMetadata_Inr [of e u opts] by auto
  qed
next
  assume "parseUserAgent (navigator e1) = Inl err1"
  then show "collectMetadata opts1 e1 = Inl err1" by (rule collectMetadata_Inl)
next
  assume "parseUserAgent (navigator e2) = Inr uaInfo"
  then show "\<exists>m. collectMetadata opts2 e2 = Inr m
           \<and> hasKey m ''userAgent'' \<and> getProp m ''userAgent'' = getProp uaInfo ''userAgent''
           \<and> hasKey m ''platform'' \<and> getProp m ''platform'' = getProp uaInfo ''platform''
           \<and> hasKey m ''browser'' \<and> getProp m ''browser'' = getProp uaInfo ''browser''
           \<and> hasKey m ''deviceType'' \<and> getProp m ''deviceType'' = getProp uaInfo ''deviceType''
           \<and> ((\<exists>err. getFingerprint False e2 = Inl err) \<longrightarrow> \<not> hasKey m ''fingerprint'')
           \<and> (fst (getLocation e2) = Inr Undefined \<longrightarrow> \<not> hasKey m ''location'')"
    by (rule collectMetadata_Inr)
qed

text \<open>
  C4 on a server (the parser throws) and in a worker without network (fingerprint and
  location both fail, the classifier fields are there).
\<close>

theorem collectMetadata_rejects_iff_witness:
  "parseUserAgent (navigator server_env) =
     Inl (Exception ''ReferenceError'' ''navigator is not defined'')
   \<and> collectMetadata all_options server_env =
     Inl (Exception ''ReferenceError'' ''navigator is not defined'')
   \<and> getFingerprint False worker_env =
     Inl (Exception ''Error'' ''Fingerprint generation failed: screen is not defined'')
   \<and> fst (getLocation worker_env) = Inr Undefined
   \<and> collectMetadata all_options worker_env =
     Inr (Obj [(''userAgent'', Str ''Mozilla/5.0 (Macintosh; Intel Mac OS X 10_15_7) AppleWebKit/537.36 (KHTML, like Gecko) Chrome/91.0.4472.124 Safari/537.36''),
               (''platform'', Str ''macOS''),
               (''browser'', Str ''Chrome''),
               (''deviceType'', Str ''desktop''),
               (''ipAddress'', Str [])])
   \<and> \<not> hasKey (Obj [(''userAgent'', Str ''Mozilla/5.0 (Macintosh; Intel Mac OS X 10_15_7) AppleWebKit/537.36 (KHTML, like Gecko) Chrome/91.0.4472.124 Safari/537.36''),
               (''platform'', Str ''macOS''),
               (''browser'', Str ''Chrome''),
               (''deviceType'', Str ''desktop''),
               (''ipAddress'', Str [])]) ''fingerprint''
   \<and> \<not> hasKey (Obj [(''userAgent'', Str ''Mozilla/5.0 (Macintosh; Intel Mac OS X 10_15_7) AppleWebKit/537.36 (KHTML, like Gecko) Chrome/91.0.4472.124 Safari/537.36''),
               (''platform'', Str ''macOS''),
               (''browser'', Str ''Chrome''),
               (''deviceType'', Str ''desktop''),
               (''ipAddress'', Str [])]) ''location''"
proof -
  have a: "parseUserAgent (navigator server_env) =
     Inl (Exception ''ReferenceError'' ''navigator is not defined'')"
    by code_simp
  have b: "parseUserAgent (navigator worker_env) =
     Inr (Obj [(''userAgent'', Str ''Mozilla/5.0 (Macintosh; Intel Mac OS X 10_15_7) AppleWebKit/537.36 (KHTML, like Gecko) Chrome/91.0.4472.124 Safari/537.36''),
               (''platform'', Str ''macOS''),
               (''browser'', Str ''Chrome''),
               (''deviceType'', Str ''desktop'')])"
    by code_simp
  have c: "getFingerprint False worker_env =
     Inl (Exception ''Error'' ''Fingerprint generation failed: screen is not defined'')"
    by code_simp
  have d: "fst (getLocation worker_env) = Inr Undefined"
    by code_simp
  have m: "collectMetadata all_options worker_env =
     Inr (Obj [(''userAgent'', Str ''Mozilla/5.0 (Macintosh; Intel Mac OS X 10_15_7) AppleWebKit/537.36 (KHTML, like Gecko) Chrome/91.0.4472.124 Safari/537.36''),
               (''platform'', Str ''macOS''),
               (''browser'', Str ''Chrome''),
               (''deviceType'', Str ''desktop''),
               (''ipAddress'', Str [])])"
    by code_simp
  from a b c d m
    collectMetadata_rejects_iff [of all_options server_env server_env
      "Exception ''ReferenceError'' ''navigator is not defined''" all_options worker_env
      "Obj [(''userAgent'', Str ''Mozilla/5.0 (Macintosh; Intel Mac OS X 10_15_7) AppleWebKit/537.36 (KHTML, like Gecko) Chrome/91.0.4472.124 Safari/537.36''),
               (''platform'', Str ''macOS''),
               (''browser'', Str ''Chrome''),
               (''deviceType'', Str ''desktop'')]" all_options]
  show ?thesis by auto
qed

text \<open>
  Claim C2 where the first provider answers with a body that names the address: the
  parsed location has no \<open>ip\<close> property, and \<open>ipAddress\<close> is \<open>undefined\<close>.
\<close>

theorem collectMetadata_ipAddress_undefined:
  "fst (getLocation located_env) =
     Inr (Obj [(''country'', Str ''Luxembourg''), (''city'', Str ''Belval''),
               (''latitude'', Num (Fin (495042 / 10000))),
               (''longitude'', Num (Fin (59481 / 10000)))])
   \<and> collectMetadata location_options located_env =
     Inr (Obj [(''userAgent'', Str ''Mozilla/5.0 (Macintosh; Intel Mac OS X 10_15_7) AppleWebKit/537.36 (KHTML, like Gecko) Chrome/91.0.4472.124 Safari/537.36''),
               (''platform'', Str ''macOS''),
               (''browser'', Str ''Chrome''),
               (''deviceType'', Str ''desktop''),
               (''ipAddress'', Undefined),
               (''location'', Obj [(''country'', Str ''Luxembourg''), (''city'', Str ''Belval''),
                                   (''latitude'', Num (Fin (495042 / 10000))),
                                   (''longitude'', Num (Fin (59481 / 10000)))])])"
  by code_simp

lemma collectMetadata_ignores_locationTimeout:
  "collectMetadata (opts\<lparr>locationTimeout := t\<rparr>) e = collectMetadata opts e"
  by (simp add: collectMetadata_def)

lemma located_env_slow:
  "snd (snd (getLocation located_env)) = 1500
   \<and> getLocationWithTimeout 100 located_env = Inr Undefined"
  by code_simp

lemma located_env_location:
  "hasKey (case collectMetadata location_options located_env of Inr m \<Rightarrow> m | Inl err \<Rightarrow> Undefined)
     ''location''"
  by code_simp

text \<open>
  Claim C3: the result of \<open>collectMetadata\<close> does not depend on \<open>locationTimeout\<close>.
  With a timeout of 100 ms and a provider that answers after 1500 ms, the race of
  \<open>getLocationWithTimeout\<close> would give \<open>undefined\<close>, but \<open>collectMetadata\<close> waits
  and the record has its \<open>location\<close> key.
\<close>

theorem collectMetadata_locationTimeout_not_applied:
  "collectMetadata (opts\<lparr>locationTimeout := t\<rparr>) e = collectMetadata opts e
   \<and> locationTimeout location_options = Some 100
   \<and> snd (snd (getLocation located_env)) = 1500
   \<and> getLocationWithTimeout 100 located_env = Inr Undefined
   \<and> hasKey (case collectMetadata location_options located_env of
                Inr m \<Rightarrow> m | Inl err \<Rightarrow> Undefined) ''location''"
  using collectMetadata_ignores_locationTimeout [of t opts e] located_env_slow located_env_location
  by (simp add: location_options_def)

end
